theory Spec2Isabelle
  imports
    Complex_Main
    "HOL-Library.Product_Lexorder"
    "HOL-Library.AList"
    "HOL-Library.Word"
begin

unbundle bit_operations_syntax

section \<open>Data model\<close>

text \<open>
  The program is two Python files: \<^verbatim>\<open>ng_utils.py\<close> (fetching, deduplicating, uploading,
  manifest, viewer state) and \<^verbatim>\<open>generate_ng_state.py\<close> (the \<^verbatim>\<open>main\<close> that chains them).
  Python exceptions are values of \<open>error\<close>: the first three are the kinds the annotation
  service can raise, \<open>ValueError\<close> is what numpy's \<^verbatim>\<open>reshape\<close> raises on a size that
  does not divide, \<open>EncodingError\<close> is the failure of the fragment encoder.
\<close>

datatype error = NotFoundError | FetchError | AuthError | ValueError | EncodingError

type_synonym segment_id = int
type_synonym byte = "8 word"
type_synonym u32 = "32 word"

text \<open>YAML and JSON values: what \<^verbatim>\<open>yaml.safe_load\<close> returns and \<^verbatim>\<open>json.dumps\<close> accepts.\<close>

datatype json =
    JNull
  | JBool bool
  | JInt int
  | JFloat real
  | JStr string
  | JList "json list"
  | JObj "(string \<times> json) list"

text \<open>
  The configuration dictionary. A key read with \<^verbatim>\<open>cfg["k"]\<close> is a field; a key read with
  \<^verbatim>\<open>cfg.get("k", default)\<close> is an optional field, \<open>None\<close> when the key is absent.
\<close>

record config =
  cfg_segment_ids :: "segment_id list"
  cfg_api_dataset :: string
  cfg_aws_secret_name :: "string option"
  cfg_bucket :: string
  cfg_s3_base_path :: string
  cfg_fragment_dir_name :: "string option"
  cfg_segmentation_layer_source :: string
  cfg_image_layer_source :: string
  cfg_mesh_layer_name :: "string option"
  cfg_viewer_dimensions :: "json option"
  cfg_cave_client_name :: "string option"
  cfg_num_channels :: "json option"
  cfg_chunk_sizes :: "json option"
  cfg_resolution :: "json option"
  cfg_size :: "json option"

definition cfg_get :: "'v option \<Rightarrow> 'v \<Rightarrow> 'v" where
  "cfg_get v d = (case v of None \<Rightarrow> d | Some x \<Rightarrow> x)"

text \<open>
  The arrays \<^verbatim>\<open>verts\<close> (float32, kept as IEEE bit patterns) and \<^verbatim>\<open>faces\<close> (uint32) that
  \<^verbatim>\<open>fetch_proofread_meshes\<close> hands to the fragment encoder.
\<close>

record mesh =
  vertices :: "(u32 \<times> u32 \<times> u32) list"
  faces :: "(u32 \<times> u32 \<times> u32) list"

text \<open>
  The annotation service, \<^verbatim>\<open>api_mod.API(secret_dict=secret)\<close>. Skeleton coordinates are
  values of a linearly ordered type \<open>'a\<close>: finite floats under numeric comparison.
\<close>

record 'a fetcher =
  fetch_segment_id_mesh :: "segment_id \<Rightarrow> error + mesh"
  fetch_proofread_mesh :: "mesh \<Rightarrow> segment_id \<Rightarrow> error + mesh"
  fetch_proofread_skeleton :: "segment_id \<Rightarrow> error + 'a list"

text \<open>
  Lines 22 to 24 and 40 to 42: the secret lookup and the import of the dataset's API
  module, which yield the service or raise.
\<close>

type_synonym 'a services = "string \<Rightarrow> string option \<Rightarrow> error + 'a fetcher"

section \<open>Mesh fragments\<close>

text \<open>Little-endian bytes of a 32-bit value, as \<^verbatim>\<open>tobytes('C')\<close> writes them.\<close>

definition le32 :: "u32 \<Rightarrow> byte list" where
  "le32 w = [ucast w, ucast (drop_bit 8 w), ucast (drop_bit 16 w), ucast (drop_bit 24 w)]"

definition from_le32 :: "byte \<Rightarrow> byte \<Rightarrow> byte \<Rightarrow> byte \<Rightarrow> u32" where
  "from_le32 a b c d =
     ucast a OR push_bit 8 (ucast b) OR push_bit 16 (ucast c) OR push_bit 24 (ucast d)"

definition row_bytes :: "u32 \<times> u32 \<times> u32 \<Rightarrow> byte list" where
  "row_bytes r = (case r of (x, y, z) \<Rightarrow> le32 x @ le32 y @ le32 z)"

text \<open>The invariant of a MeshFragment: every face index is below the vertex count.\<close>

definition in_range :: "mesh \<Rightarrow> bool" where
  "in_range m =
     list_all (\<lambda>(i, j, k). unat i < length (vertices m) \<and> unat j < length (vertices m)
                 \<and> unat k < length (vertices m)) (faces m)"

text \<open>
  Modelled from the spec: the binary layout of a fragment, which section 4.3 gives: the
  vertex count, the vertex positions interleaved, then the face index triples, in that
  order and uncompressed. The count is a 32-bit field.
\<close>

definition fragment_bytes :: "mesh \<Rightarrow> byte list" where
  "fragment_bytes m =
     le32 (of_nat (length (vertices m)))
       @ concat (map row_bytes (vertices m))
       @ concat (map row_bytes (faces m))"

text \<open>
  Modelled from the spec: the encoder, \<^verbatim>\<open>Mesh(verts, faces, segid=sid).to_precomputed()\<close>
  of lines 32 and 33, whose body belongs to the cloudvolume package and is not part of
  the source files. Section 4.3: it writes the layout above, and it fails with
  EncodingError if any face index is out of range or the vertex or face count exceeds a
  configured maximum. The source files configure no maximum, so it is the parameter
  \<open>max_count\<close> here and in every function that reaches the encoder.
\<close>

definition to_precomputed :: "nat \<Rightarrow> mesh \<Rightarrow> error + byte list" where
  "to_precomputed max_count m =
     (if in_range m \<and> length (vertices m) \<le> max_count \<and> length (faces m) \<le> max_count
      then Inr (fragment_bytes m)
      else Inl EncodingError)"

fun words_of :: "byte list \<Rightarrow> u32 list" where
  "words_of (a # b # c # d # r) = from_le32 a b c d # words_of r"
| "words_of _ = []"

fun chunk3 :: "'a list \<Rightarrow> ('a \<times> 'a \<times> 'a) list" where
  "chunk3 (x # y # z # r) = (x, y, z) # chunk3 r"
| "chunk3 _ = []"

fun chunk2 :: "'a list \<Rightarrow> ('a \<times> 'a) list" where
  "chunk2 (x # y # r) = (x, y) # chunk2 r"
| "chunk2 _ = []"

text \<open>
  Modelled from the spec: the decoder, which the repository does not contain. Section 4.3
  calls it the exact inverse of the layout: read the count \<open>n\<close>, then \<open>n\<close> positions, then
  the rest as face triples. Input that is not of that shape is rejected.
\<close>

definition from_precomputed :: "byte list \<Rightarrow> error + mesh" where
  "from_precomputed bs =
     (if length bs < 4 then Inl ValueError
      else
        let n = unat (hd (words_of (take 4 bs))); rest = drop 4 bs
        in if length rest < 12 * n \<or> (length rest - 12 * n) mod 12 \<noteq> 0 then Inl ValueError
           else Inr \<lparr>vertices = chunk3 (words_of (take (12 * n) rest)),
                     faces = chunk3 (words_of (drop (12 * n) rest))\<rparr>)"

text \<open>The two service calls of lines 28 and 29 for one id.\<close>

definition fetch_one :: "'a fetcher \<Rightarrow> segment_id \<Rightarrow> error + mesh" where
  "fetch_one fetcher sid =
     (case fetch_segment_id_mesh fetcher sid of
        Inl e \<Rightarrow> Inl e
      | Inr decim \<Rightarrow> fetch_proofread_mesh fetcher decim sid)"

text \<open>The body of the loop, lines 28 to 33, for one id: the two fetches, then the encoder.\<close>

definition fragment_of :: "'a fetcher \<Rightarrow> nat \<Rightarrow> segment_id \<Rightarrow> error + byte list" where
  "fragment_of fetcher max_count sid =
     (case fetch_one fetcher sid of
        Inl e \<Rightarrow> Inl e
      | Inr proofread \<Rightarrow> to_precomputed max_count proofread)"

text \<open>
  The loop of \<^verbatim>\<open>fetch_proofread_meshes\<close>. The dictionary \<^verbatim>\<open>out\<close> is an association list
  in insertion order; \<^verbatim>\<open>out[sid] = v\<close> replaces the value of a key already there and
  appends a new key otherwise. An exception leaves the loop and the function.
\<close>

fun meshes_loop ::
  "'a fetcher \<Rightarrow> nat \<Rightarrow> segment_id list \<Rightarrow> (segment_id \<times> byte list) list
     \<Rightarrow> error + (segment_id \<times> byte list) list" where
  "meshes_loop fetcher max_count [] out = Inr out"
| "meshes_loop fetcher max_count (sid # sids) out =
     (case fragment_of fetcher max_count sid of
        Inl e \<Rightarrow> Inl e
      | Inr frag \<Rightarrow> meshes_loop fetcher max_count sids (AList.update sid frag out))"

definition fetch_proofread_meshes ::
  "'a services \<Rightarrow> nat \<Rightarrow> segment_id list \<Rightarrow> string \<Rightarrow> string option
     \<Rightarrow> error + (segment_id \<times> byte list) list" where
  "fetch_proofread_meshes env max_count segment_ids api_dataset aws_secret_name =
     (case env api_dataset aws_secret_name of
        Inl e \<Rightarrow> Inl e
      | Inr fetcher \<Rightarrow> meshes_loop fetcher max_count segment_ids [])"

section \<open>Skeleton deduplication\<close>

text \<open>\<^verbatim>\<open>reshape(-1, 3)\<close> and \<^verbatim>\<open>reshape(-1, 2)\<close>: rows of the flat data, or ValueError.\<close>

definition reshape3 :: "'a list \<Rightarrow> error + ('a \<times> 'a \<times> 'a) list" where
  "reshape3 xs = (if length xs mod 3 = 0 then Inr (chunk3 xs) else Inl ValueError)"

definition reshape2 :: "'a list \<Rightarrow> error + ('a \<times> 'a) list" where
  "reshape2 xs = (if length xs mod 2 = 0 then Inr (chunk2 xs) else Inl ValueError)"

fun index_of :: "'a list \<Rightarrow> 'a \<Rightarrow> nat" where
  "index_of [] x = 0"
| "index_of (y # ys) x = (if x = y then 0 else Suc (index_of ys x))"

text \<open>
  \<^verbatim>\<open>np.unique(ar, axis=0, return_inverse=True)\<close>: the rows sorted (lexicographically, the
  order of products), equal neighbours merged, and for every input row its position in
  that result.
\<close>

definition np_unique :: "'a::linorder list \<Rightarrow> 'a list \<times> nat list" where
  "np_unique ar = (let u = remdups_adj (sort ar) in (u, map (index_of u) ar))"

text \<open>The lexicographic order on rows, written out.\<close>

definition lex_le :: "'a::linorder \<times> 'a \<times> 'a \<Rightarrow> 'a \<times> 'a \<times> 'a \<Rightarrow> bool" where
  "lex_le p q =
     (case p of (x, y, z) \<Rightarrow> case q of (x', y', z') \<Rightarrow>
        x < x' \<or> (x = x' \<and> (y < y' \<or> (y = y' \<and> z \<le> z'))))"

text \<open>Lines 49 to 51, the body of the loop of \<^verbatim>\<open>fetch_proofread_skeletons\<close>.\<close>

definition dedup_points ::
  "('a::linorder \<times> 'a \<times> 'a) list \<Rightarrow> error + (('a \<times> 'a \<times> 'a) list \<times> (nat \<times> nat) list)" where
  "dedup_points all_pts =
     (case np_unique all_pts of
        (verts, inv_idx) \<Rightarrow>
          (case reshape2 inv_idx of
             Inl e \<Rightarrow> Inl e
           | Inr edges \<Rightarrow> Inr (verts, edges)))"

definition dedup_skeleton ::
  "'a::linorder list \<Rightarrow> error + (('a \<times> 'a \<times> 'a) list \<times> (nat \<times> nat) list)" where
  "dedup_skeleton raw =
     (case reshape3 raw of
        Inl e \<Rightarrow> Inl e
      | Inr all_pts \<Rightarrow> dedup_points all_pts)"

type_synonym 'a skeleton = "('a \<times> 'a \<times> 'a) list \<times> (nat \<times> nat) list"

fun skeletons_loop ::
  "'a::linorder fetcher \<Rightarrow> segment_id list \<Rightarrow> (segment_id \<times> 'a skeleton) list
     \<Rightarrow> error + (segment_id \<times> 'a skeleton) list" where
  "skeletons_loop fetcher [] out = Inr out"
| "skeletons_loop fetcher (sid # sids) out =
     (case fetch_proofread_skeleton fetcher sid of
        Inl e \<Rightarrow> Inl e
      | Inr raw \<Rightarrow>
          (case dedup_skeleton raw of
             Inl e \<Rightarrow> Inl e
           | Inr sk \<Rightarrow> skeletons_loop fetcher sids (AList.update sid sk out)))"

definition fetch_proofread_skeletons ::
  "'a::linorder services \<Rightarrow> segment_id list \<Rightarrow> string \<Rightarrow> string option
     \<Rightarrow> error + (segment_id \<times> 'a skeleton) list" where
  "fetch_proofread_skeletons env segment_ids api_dataset aws_secret_name =
     (case env api_dataset aws_secret_name of
        Inl e \<Rightarrow> Inl e
      | Inr fetcher \<Rightarrow> skeletons_loop fetcher segment_ids [])"

section \<open>Publishing to the object store\<close>

text \<open>Python's \<^verbatim>\<open>str\<close> of an integer, which the f-string of line 77 applies to the id.\<close>

definition digit_char :: "nat \<Rightarrow> char" where
  "digit_char d = ''0123456789'' ! d"

function str_nat :: "nat \<Rightarrow> string" where
  "str_nat n = (if n < 10 then [digit_char n] else str_nat (n div 10) @ [digit_char (n mod 10)])"
  by pat_completeness auto
termination
  by (relation "measure id") auto

declare str_nat.simps [simp del]

definition str_int :: "int \<Rightarrow> string" where
  "str_int i = (if i < 0 then CHR ''-'' # str_nat (nat (- i)) else str_nat (nat i))"

text \<open>
  The object store maps bucket and key to the stored body and its content type.
  \<^verbatim>\<open>put_object\<close> replaces whatever the key held. The manifest body is the JSON text of a
  value (\<^verbatim>\<open>json.dumps(info, indent=2).encode("utf-8")\<close>); the model keeps the value.
\<close>

datatype body = Bytes "byte list" | JsonText json

record s3_object =
  Body :: body
  ContentType :: string

type_synonym s3 = "string \<times> string \<rightharpoonup> s3_object"

definition put_object :: "string \<Rightarrow> string \<Rightarrow> body \<Rightarrow> string \<Rightarrow> s3 \<Rightarrow> s3" where
  "put_object Bucket Key data content_type store =
     store((Bucket, Key) \<mapsto> \<lparr>Body = data, ContentType = content_type\<rparr>)"

fun upload_loop :: "string \<Rightarrow> string \<Rightarrow> (segment_id \<times> byte list) list \<Rightarrow> s3 \<Rightarrow> s3" where
  "upload_loop bucket prefix [] store = store"
| "upload_loop bucket prefix ((sid, frag_bytes) # rest) store =
     upload_loop bucket prefix rest
       (put_object bucket (prefix @ ''/'' @ str_int sid @ '':0'') (Bytes frag_bytes)
          ''application/octet-stream'' store)"

definition upload_meshes_to_s3 ::
  "(segment_id \<times> byte list) list \<Rightarrow> string \<Rightarrow> string \<Rightarrow> string \<Rightarrow> s3 \<Rightarrow> s3 \<times> string" where
  "upload_meshes_to_s3 fragments bucket s3_base_path fragment_dir_name store =
     (let prefix = s3_base_path @ ''/'' @ fragment_dir_name
      in (upload_loop bucket prefix fragments store, ''s3://'' @ bucket @ ''/'' @ prefix))"

text \<open>The dictionary \<^verbatim>\<open>info\<close> of lines 108 to 123.\<close>

definition info :: "string \<Rightarrow> config \<Rightarrow> json" where
  "info fragment_dir_name cfg =
     JObj
      [(''@type'', JStr ''neuroglancer_multiscale_volume''),
       (''type'', JStr ''segmentation''),
       (''data_type'', JStr ''uint64''),
       (''num_channels'', cfg_get (cfg_num_channels cfg) (JInt 1)),
       (''scales'',
        JList
         [JObj
           [(''encoding'', JStr ''raw''),
            (''chunk_sizes'',
             cfg_get (cfg_chunk_sizes cfg) (JList [JList [JInt 64, JInt 64, JInt 64]])),
            (''key'', JStr ''fullres''),
            (''resolution'', cfg_get (cfg_resolution cfg) (JList [JInt 8, JInt 8, JInt 30])),
            (''size'', cfg_get (cfg_size cfg) (JList [JInt 1, JInt 1, JInt 1]))]]),
       (''mesh'', JStr fragment_dir_name)]"

definition write_info_file :: "string \<Rightarrow> string \<Rightarrow> string \<Rightarrow> config \<Rightarrow> s3 \<Rightarrow> s3" where
  "write_info_file bucket s3_base_path fragment_dir_name cfg store =
     put_object bucket (s3_base_path @ ''/info'') (JsonText (info fragment_dir_name cfg))
       ''application/json'' store"

text \<open>Reading a manifest: a key of an object, an index of a list.\<close>

datatype step = Key string | Idx nat

fun jstep :: "json \<Rightarrow> step \<Rightarrow> json option" where
  "jstep (JObj kvs) (Key k) = map_of kvs k"
| "jstep (JList xs) (Idx i) = (if i < length xs then Some (xs ! i) else None)"
| "jstep _ _ = None"

fun jpath :: "json \<Rightarrow> step list \<Rightarrow> json option" where
  "jpath j [] = Some j"
| "jpath j (st # sts) = (case jstep j st of None \<Rightarrow> None | Some j' \<Rightarrow> jpath j' sts)"

fun is_number :: "json \<Rightarrow> bool" where
  "is_number (JInt _) = True"
| "is_number (JFloat _) = True"
| "is_number _ = False"

text \<open>A 3-element numeric sequence.\<close>

fun num3 :: "json \<Rightarrow> bool" where
  "num3 (JList [a, b, c]) = (is_number a \<and> is_number b \<and> is_number c)"
| "num3 _ = False"

section \<open>Skeleton upload\<close>

text \<open>
  The nglui \<^verbatim>\<open>SkeletonManager\<close>: where it writes, and what has been uploaded through it so
  far (root id, vertices, edges, the radius attribute), in upload order.
\<close>

record 'a skeleton_manager =
  sm_segmentation_source :: string
  sm_cloudpath :: string
  sm_vertex_attributes :: "string list"
  sm_uploaded :: "(segment_id \<times> 'a skeleton \<times> real list) list"

definition init_skeleton_manager :: "string \<Rightarrow> string \<Rightarrow> string \<Rightarrow> 'a skeleton_manager" where
  "init_skeleton_manager seg_source bucket s3_base_path =
     \<lparr>sm_segmentation_source = seg_source,
      sm_cloudpath = ''s3://'' @ bucket @ ''/'' @ s3_base_path @ ''/skeletons'',
      sm_vertex_attributes = [''radius''],
      sm_uploaded = []\<rparr>"

definition skeleton_source :: "'a skeleton_manager \<Rightarrow> string" where
  "skeleton_source skmgr = ''precomputed://'' @ sm_cloudpath skmgr"

definition upload_skeleton ::
  "segment_id \<Rightarrow> 'a skeleton \<Rightarrow> real list \<Rightarrow> 'a skeleton_manager \<Rightarrow> 'a skeleton_manager" where
  "upload_skeleton root_id sk radius skmgr =
     skmgr\<lparr>sm_uploaded := sm_uploaded skmgr @ [(root_id, sk, radius)]\<rparr>"

fun upload_skeletons ::
  "(segment_id \<times> 'a skeleton) list \<Rightarrow> 'a skeleton_manager \<Rightarrow> 'a skeleton_manager \<times> string" where
  "upload_skeletons [] skmgr = (skmgr, skeleton_source skmgr)"
| "upload_skeletons ((sid, (verts, edges)) # rest) skmgr =
     upload_skeletons rest
       (upload_skeleton sid (verts, edges) (replicate (length verts) 10) skmgr)"

section \<open>Viewer state\<close>

datatype layer_kind = ImageLayer | SegmentationLayer

text \<open>A layer; \<open>layer_segments\<close> is \<open>None\<close> when the call passes no \<^verbatim>\<open>segments\<close>.\<close>

record layer =
  layer_kind :: layer_kind
  layer_name :: string
  layer_source :: string
  layer_segments :: "segment_id list option"

record viewer_state =
  vs_dimensions :: json
  vs_layers :: "layer list"

definition add_image_layer :: "string \<Rightarrow> string \<Rightarrow> viewer_state \<Rightarrow> viewer_state" where
  "add_image_layer src nm vs =
     vs\<lparr>vs_layers := vs_layers vs
        @ [\<lparr>layer_kind = ImageLayer, layer_name = nm, layer_source = src, layer_segments = None\<rparr>]\<rparr>"

definition add_segmentation_layer ::
  "string \<Rightarrow> string \<Rightarrow> segment_id list option \<Rightarrow> viewer_state \<Rightarrow> viewer_state" where
  "add_segmentation_layer src nm segs vs =
     vs\<lparr>vs_layers := vs_layers vs
        @ [\<lparr>layer_kind = SegmentationLayer, layer_name = nm, layer_source = src,
            layer_segments = segs\<rparr>]\<rparr>"

definition add_layer :: "layer \<Rightarrow> viewer_state \<Rightarrow> viewer_state" where
  "add_layer l vs = vs\<lparr>vs_layers := vs_layers vs @ [l]\<rparr>"

text \<open>
  \<^verbatim>\<open>to_segmentation_layer(name=..., uploaded_segments=True, ...)\<close>: a segmentation layer
  over the manager's source that selects the ids uploaded through the manager.
\<close>

definition to_segmentation_layer :: "'a skeleton_manager \<Rightarrow> string \<Rightarrow> layer" where
  "to_segmentation_layer skmgr nm =
     \<lparr>layer_kind = SegmentationLayer, layer_name = nm, layer_source = skeleton_source skmgr,
      layer_segments = Some (map fst (sm_uploaded skmgr))\<rparr>"

text \<open>How an f-string prints a value that may be \<^verbatim>\<open>None\<close>.\<close>

definition fmt :: "string option \<Rightarrow> string" where
  "fmt v = (case v of None \<Rightarrow> ''None'' | Some x \<Rightarrow> x)"

text \<open>
  \<^verbatim>\<open>build_viewer_link\<close> up to line 175: the viewer state that line 179 hands to the
  link service. The link itself is that service's answer.
\<close>

definition build_viewer_link ::
  "string \<Rightarrow> string \<Rightarrow> string \<Rightarrow> string option \<Rightarrow> string \<Rightarrow> segment_id list \<Rightarrow> json
     \<Rightarrow> string option \<Rightarrow> 'a skeleton_manager option \<Rightarrow> string \<Rightarrow> viewer_state" where
  "build_viewer_link image_source seg_source mesh_source skel_source mesh_layer_name
       segment_ids dims cave_client_name skeleton_manager skeleton_layer_name =
     (let vs0 = \<lparr>vs_dimensions = dims, vs_layers = []\<rparr>;
          vs1 = add_image_layer image_source ''EM_image'' vs0;
          vs2 = add_segmentation_layer seg_source ''flat_seg'' None vs1;
          vs3 = add_segmentation_layer (''precomputed://'' @ mesh_source) mesh_layer_name
                  (Some segment_ids) vs2;
          vs4 = add_segmentation_layer (''precomputed://'' @ fmt skel_source)
                  ''proofread_skeletons_source'' (Some segment_ids) vs3
      in case skeleton_manager of
           None \<Rightarrow> vs4
         | Some skmgr \<Rightarrow> add_layer (to_segmentation_layer skmgr skeleton_layer_name) vs4)"

section \<open>The run\<close>

text \<open>
  \<^verbatim>\<open>main\<close> of \<^verbatim>\<open>generate_ng_state.py\<close>, lines 20 to 54. It returns the object store as the
  run leaves it, and either the exception that ended the run or the skeleton manager and
  the viewer state it reached. \<open>max_count\<close> is the encoder's maximum.
\<close>

definition main ::
  "'a::linorder services \<Rightarrow> nat \<Rightarrow> config \<Rightarrow> s3
     \<Rightarrow> s3 \<times> (error + 'a skeleton_manager \<times> viewer_state)" where
  "main env max_count cfg store =
     (case fetch_proofread_meshes env max_count (cfg_segment_ids cfg) (cfg_api_dataset cfg)
             (cfg_aws_secret_name cfg) of
        Inl e \<Rightarrow> (store, Inl e)
      | Inr frags \<Rightarrow>
          (case upload_meshes_to_s3 frags (cfg_bucket cfg) (cfg_s3_base_path cfg)
                  (cfg_get (cfg_fragment_dir_name cfg) ''mesh'') store of
             (store1, mesh_s3_url) \<Rightarrow>
               let store2 = write_info_file (cfg_bucket cfg) (cfg_s3_base_path cfg)
                              (cfg_get (cfg_fragment_dir_name cfg) ''mesh'') cfg store1;
                   skmgr = init_skeleton_manager (cfg_segmentation_layer_source cfg)
                             (cfg_bucket cfg) (cfg_s3_base_path cfg)
               in (case fetch_proofread_skeletons env (cfg_segment_ids cfg)
                          (cfg_api_dataset cfg) (cfg_aws_secret_name cfg) of
                     Inl e \<Rightarrow> (store2, Inl e)
                   | Inr skeletons \<Rightarrow>
                       (case upload_skeletons skeletons skmgr of
                          (skmgr', skel_source) \<Rightarrow>
                            (store2,
                             Inr (skmgr',
                                  build_viewer_link (cfg_image_layer_source cfg)
                                    (cfg_segmentation_layer_source cfg) mesh_s3_url
                                    (Some skel_source)
                                    (cfg_get (cfg_mesh_layer_name cfg) ''proofread_meshes'')
                                    (cfg_segment_ids cfg)
                                    (cfg_get (cfg_viewer_dimensions cfg)
                                       (JList [JInt 8, JInt 8, JInt 30]))
                                    (cfg_cave_client_name cfg) (Some skmgr')
                                    ''proofread_skeletons''))))))"

section \<open>Concrete inputs\<close>

definition example_cfg :: config where
  "example_cfg =
     \<lparr>cfg_segment_ids = [10, 20], cfg_api_dataset = ''h01'', cfg_aws_secret_name = None,
      cfg_bucket = ''bkt'', cfg_s3_base_path = ''exp1'', cfg_fragment_dir_name = None,
      cfg_segmentation_layer_source = ''precomputed://seg'',
      cfg_image_layer_source = ''precomputed://em'', cfg_mesh_layer_name = None,
      cfg_viewer_dimensions = None, cfg_cave_client_name = None, cfg_num_channels = None,
      cfg_chunk_sizes = None, cfg_resolution = None, cfg_size = None\<rparr>"

text \<open>The same configuration with the two ids in the other order.\<close>

definition reversed_cfg :: config where
  "reversed_cfg = example_cfg\<lparr>cfg_segment_ids := [20, 10]\<rparr>"

definition triangle :: mesh where
  "triangle = \<lparr>vertices = [(0, 0, 0), (1, 0, 0), (0, 1, 0)], faces = [(0, 1, 2)]\<rparr>"

text \<open>A service that has no proofread data for id 10 and a triangle for every other id.\<close>

definition missing_10 :: "int fetcher" where
  "missing_10 =
     \<lparr>fetch_segment_id_mesh = (\<lambda>sid. if sid = 10 then Inl NotFoundError else Inr triangle),
      fetch_proofread_mesh = (\<lambda>decim sid. Inr decim),
      fetch_proofread_skeleton = (\<lambda>sid. Inr [0, 0, 0, 1, 1, 1])\<rparr>"

definition missing_10_env :: "int services" where
  "missing_10_env = (\<lambda>api_dataset aws_secret_name. Inr missing_10)"

definition no_objects :: s3 where
  "no_objects = Map.empty"

text \<open>A mesh of one vertex whose only face names the vertices 1 and 5, which it lacks.\<close>

definition stray_face :: mesh where
  "stray_face = \<lparr>vertices = [(0, 0, 0)], faces = [(0, 1, 5)]\<rparr>"

definition stray_face_service :: "int fetcher" where
  "stray_face_service =
     \<lparr>fetch_segment_id_mesh = (\<lambda>sid. Inr stray_face),
      fetch_proofread_mesh = (\<lambda>decim sid. Inr decim),
      fetch_proofread_skeleton = (\<lambda>sid. Inr [])\<rparr>"

definition stray_face_env :: "int services" where
  "stray_face_env = (\<lambda>api_dataset aws_secret_name. Inr stray_face_service)"

text \<open>Raw skeletons: a chain of two edges, a pair with a self-loop, and one vertex set in two orders.\<close>

definition chain_raw :: "int list" where
  "chain_raw = [0, 0, 0, 1, 1, 1, 1, 1, 1, 2, 2, 2]"

definition loop_pts :: "(int \<times> int \<times> int) list" where
  "loop_pts = [(1, 1, 1), (0, 0, 0), (1, 1, 1), (1, 1, 1)]"

definition fork_pts :: "(int \<times> int \<times> int) list" where
  "fork_pts = [(2, 0, 1), (1, 5, 0), (1, 0, 7), (1, 5, 0)]"

definition fork_pts' :: "(int \<times> int \<times> int) list" where
  "fork_pts' = [(1, 0, 7), (2, 0, 1), (2, 0, 1), (1, 5, 0), (1, 0, 7), (1, 0, 7)]"

section \<open>Properties of the deduplication\<close>

lemma index_of_less: "x \<in> set xs \<Longrightarrow> index_of xs x < length xs"
  by (induction xs) auto

lemma nth_index_of: "x \<in> set xs \<Longrightarrow> xs ! index_of xs x = x"
  by (induction xs) auto

lemma distinct_remdups_adj_sorted: "sorted xs \<Longrightarrow> distinct (remdups_adj xs)"
  by (induction xs rule: remdups_adj.induct) auto

lemma chunk2_set: "(i, j) \<in> set (chunk2 xs) \<Longrightarrow> i \<in> set xs \<and> j \<in> set xs"
  by (induction xs rule: chunk2.induct) auto

lemma length_chunk2: "length (chunk2 xs) = length xs div 2"
  by (induction xs rule: chunk2.induct) auto

lemma length_chunk3: "length (chunk3 xs) = length xs div 3"
  by (induction xs rule: chunk3.induct) auto

lemma chunk2_nth:
  "e < length xs div 2 \<Longrightarrow> chunk2 xs ! e = (xs ! (2 * e), xs ! (2 * e + 1))"
proof (induction xs arbitrary: e rule: chunk2.induct)
  case (1 x y r)
  then show ?case by (cases e) auto
qed auto

lemma np_unique_sorted: "sorted (fst (np_unique ar))"
  by (simp add: np_unique_def Let_def sorted_remdups_adj)

lemma np_unique_distinct: "distinct (fst (np_unique ar))"
  by (simp add: np_unique_def Let_def distinct_remdups_adj_sorted)

lemma np_unique_set: "set (fst (np_unique ar)) = set ar"
  by (simp add: np_unique_def Let_def)

lemma np_unique_length: "length (fst (np_unique ar)) \<le> length ar"
proof -
  have "length (remdups_adj (sort ar)) \<le> length (sort ar)" by (rule remdups_adj_length)
  then show ?thesis by (simp add: np_unique_def Let_def)
qed

lemma np_unique_inverse: "snd (np_unique ar) = map (index_of (fst (np_unique ar))) ar"
  by (simp add: np_unique_def Let_def)

lemma lex_le_iff: "lex_le p q \<longleftrightarrow> p \<le> q"
  by (cases p, cases q) (auto simp: lex_le_def less_eq_prod_def less_prod_def)

lemma sorted_wrt_lex_le: "sorted_wrt lex_le ps = sorted ps"
proof -
  have "(lex_le :: 'a \<times> 'a \<times> 'a \<Rightarrow> _) = (\<le>)" by (intro ext) (rule lex_le_iff)
  then show ?thesis by simp
qed

lemma dedup_points_Inr:
  "dedup_points pts = Inr (verts, edges) \<longleftrightarrow>
     even (length pts) \<and> verts = fst (np_unique pts)
       \<and> edges = chunk2 (map (index_of (fst (np_unique pts))) pts)"
  by (auto simp: dedup_points_def reshape2_def np_unique_def Let_def split: prod.splits)

lemma dedup_skeleton_Inr:
  "dedup_skeleton raw = Inr r \<longleftrightarrow> length raw mod 3 = 0 \<and> dedup_points (chunk3 raw) = Inr r"
  by (auto simp: dedup_skeleton_def reshape3_def)

text \<open>
  C1. When the raw data is a whole number of points and the deduplication returns
  \<open>(verts, edges)\<close>, every index in \<open>edges\<close> is below the number of rows of \<open>verts\<close>, and
  \<open>verts\<close> has at most \<open>2 * E\<close> rows, \<open>E\<close> being the point count divided by 2.
\<close>

theorem dedup_skeleton_indices_in_range:
  assumes "length raw mod 3 = 0" and "dedup_skeleton raw = Inr (verts, edges)"
  shows "(\<forall>(i, j) \<in> set edges. i < length verts \<and> j < length verts)
           \<and> length verts \<le> 2 * (length raw div 3 div 2)"
proof -
  let ?pts = "chunk3 raw"
  from assms have ev: "even (length ?pts)" and v: "verts = fst (np_unique ?pts)"
    and e: "edges = chunk2 (map (index_of verts) ?pts)"
    by (simp_all add: dedup_skeleton_Inr dedup_points_Inr)
  have "i < length verts \<and> j < length verts" if "(i, j) \<in> set edges" for i j
  proof -
    from that e have "i \<in> set (map (index_of verts) ?pts)" "j \<in> set (map (index_of verts) ?pts)"
      using chunk2_set [of i j "map (index_of verts) ?pts"] by simp_all
    then obtain p q where "p \<in> set ?pts" "i = index_of verts p" "q \<in> set ?pts" "j = index_of verts q"
      by auto
    then show ?thesis using v by (simp add: index_of_less np_unique_set)
  qed
  moreover have "length verts \<le> 2 * (length raw div 3 div 2)"
  proof -
    have "length verts \<le> length ?pts" using v by (simp add: np_unique_length)
    also have "\<dots> = 2 * (length ?pts div 2)" using ev by simp
    finally show ?thesis by (simp add: length_chunk3)
  qed
  ultimately show ?thesis by blast
qed

theorem dedup_skeleton_indices_in_range_witness:
  "length chain_raw mod 3 = 0
     \<and> dedup_skeleton chain_raw = Inr ([(0, 0, 0), (1, 1, 1), (2, 2, 2)], [(0, 1), (1, 2)])
     \<and> length ([(0, 0, 0), (1, 1, 1), (2, 2, 2)] :: (int \<times> int \<times> int) list) \<le> 2 * (length chain_raw div 3 div 2)"
proof -
  have l: "length chain_raw mod 3 = 0" by (simp add: chain_raw_def)
  have d: "dedup_skeleton chain_raw = Inr ([(0, 0, 0), (1, 1, 1), (2, 2, 2)], [(0, 1), (1, 2)])"
    by code_simp
  note r = dedup_skeleton_indices_in_range [OF l d]
  show ?thesis
  proof (intro conjI)
    show "length chain_raw mod 3 = 0" by (rule l)
    show "dedup_skeleton chain_raw = Inr ([(0, 0, 0), (1, 1, 1), (2, 2, 2)], [(0, 1), (1, 2)])"
      by (rule d)
    show "length ([(0, 0, 0), (1, 1, 1), (2, 2, 2)] :: (int \<times> int \<times> int) list) \<le> 2 * (length chain_raw div 3 div 2)"
      by (rule r [THEN conjunct2])
  qed
qed

text \<open>
  C2. For an even number of points the deduplication returns; the vertices are the
  distinct input points, there is one edge per input pair, edge \<open>e\<close> holds the vertex
  indices of points \<open>2e\<close> and \<open>2e + 1\<close>, and a pair of two equal points is kept as a
  self-loop.
\<close>

theorem dedup_points_remaps:
  assumes "even (length pts)"
  shows "\<exists>verts edges.
           dedup_points pts = Inr (verts, edges)
           \<and> set verts = set pts \<and> distinct verts
           \<and> length edges = length pts div 2
           \<and> (\<forall>e < length edges.
                 fst (edges ! e) < length verts \<and> snd (edges ! e) < length verts
                 \<and> verts ! fst (edges ! e) = pts ! (2 * e)
                 \<and> verts ! snd (edges ! e) = pts ! (2 * e + 1)
                 \<and> (pts ! (2 * e) = pts ! (2 * e + 1) \<longrightarrow> fst (edges ! e) = snd (edges ! e)))"
proof -
  define verts where "verts = fst (np_unique pts)"
  define edges where "edges = chunk2 (map (index_of verts) pts)"
  have r: "dedup_points pts = Inr (verts, edges)"
    using assms by (simp add: dedup_points_Inr verts_def edges_def)
  have s: "set verts = set pts" by (simp add: verts_def np_unique_set)
  have d: "distinct verts" by (simp add: verts_def np_unique_distinct)
  have l: "length edges = length pts div 2" by (simp add: edges_def length_chunk2)
  have n: "fst (edges ! e) < length verts \<and> snd (edges ! e) < length verts
           \<and> verts ! fst (edges ! e) = pts ! (2 * e)
           \<and> verts ! snd (edges ! e) = pts ! (2 * e + 1)
           \<and> (pts ! (2 * e) = pts ! (2 * e + 1) \<longrightarrow> fst (edges ! e) = snd (edges ! e))"
    if "e < length edges" for e
  proof -
    from that l have e2: "e < length pts div 2" by simp
    then have i0: "2 * e < length pts" and i1: "2 * e + 1 < length pts" by auto
    have "edges ! e = (index_of verts (pts ! (2 * e)), index_of verts (pts ! (2 * e + 1)))"
      using e2 i0 i1 by (simp add: edges_def chunk2_nth)
    moreover have "pts ! (2 * e) \<in> set verts" "pts ! (2 * e + 1) \<in> set verts"
      using i0 i1 s nth_mem by blast+
    ultimately show ?thesis by (simp add: index_of_less nth_index_of)
  qed
  from r s d l n show ?thesis by blast
qed

theorem dedup_points_remaps_witness:
  "even (length loop_pts)
     \<and> dedup_points loop_pts = Inr ([(0, 0, 0), (1, 1, 1)], [(1, 0), (1, 1)])
     \<and> length ([(1, 0), (1, 1)] :: (nat \<times> nat) list) = length loop_pts div 2"
proof -
  have ev: "even (length loop_pts)" by (simp add: loop_pts_def)
  have d: "dedup_points loop_pts = Inr ([(0, 0, 0), (1, 1, 1)], [(1, 0), (1, 1)])"
    by code_simp
  from dedup_points_remaps [OF ev] obtain verts edges
    where r: "dedup_points loop_pts = Inr (verts, edges)"
      and len: "length edges = length loop_pts div 2"
    by (elim exE conjE)
  from r d have "edges = [(1, 0), (1, 1)]" by simp
  with len have "length ([(1, 0), (1, 1)] :: (nat \<times> nat) list) = length loop_pts div 2"
    by simp
  with ev d show ?thesis by (intro conjI)
qed

text \<open>
  C10. The returned vertices are sorted lexicographically, and two inputs with the same
  set of points give the same vertex array.
\<close>

theorem dedup_vertices_canonical:
  assumes "dedup_points pts = Inr (verts, edges)"
    and "dedup_points pts' = Inr (verts', edges')"
    and "set pts = set pts'"
  shows "sorted_wrt lex_le verts \<and> verts' = verts"
proof -
  from assms(1) have v: "verts = fst (np_unique pts)" by (simp add: dedup_points_Inr)
  from assms(2) have v': "verts' = fst (np_unique pts')" by (simp add: dedup_points_Inr)
  have "sorted verts" "distinct verts" "sorted verts'" "distinct verts'"
    unfolding v v' by (rule np_unique_sorted np_unique_distinct)+
  moreover have "set verts' = set verts"
    unfolding v v' using assms(3) by (simp add: np_unique_set)
  ultimately show ?thesis
    by (simp add: sorted_wrt_lex_le sorted_distinct_set_unique)
qed

theorem dedup_vertices_canonical_witness:
  "dedup_points fork_pts = Inr ([(1, 0, 7), (1, 5, 0), (2, 0, 1)], [(2, 1), (0, 1)])
     \<and> dedup_points fork_pts' = Inr ([(1, 0, 7), (1, 5, 0), (2, 0, 1)], [(0, 2), (2, 1), (0, 0)])
     \<and> set fork_pts = set fork_pts'
     \<and> sorted_wrt lex_le ([(1, 0, 7), (1, 5, 0), (2, 0, 1)] :: (int \<times> int \<times> int) list)"
proof -
  have a: "dedup_points fork_pts = Inr ([(1, 0, 7), (1, 5, 0), (2, 0, 1)], [(2, 1), (0, 1)])"
    by code_simp
  have b: "dedup_points fork_pts'
             = Inr ([(1, 0, 7), (1, 5, 0), (2, 0, 1)], [(0, 2), (2, 1), (0, 0)])"
    by code_simp
  have c: "set fork_pts = set fork_pts'"
    by (auto simp: fork_pts_def fork_pts'_def)
  note r = dedup_vertices_canonical [OF a b c]
  from a b c r [THEN conjunct1] show ?thesis by (intro conjI)
qed

section \<open>Properties of the run\<close>

lemma to_precomputed_triangle: "to_precomputed 1000 triangle = Inr (fragment_bytes triangle)"
  by (simp add: to_precomputed_def in_range_def triangle_def)

lemma meshes_loop_fails:
  assumes "\<forall>sid \<in> set pre. \<exists>frag. fragment_of fetcher max_count sid = Inr frag"
    and "fragment_of fetcher max_count a = Inl e"
  shows "meshes_loop fetcher max_count (pre @ a # post) out = Inl e"
  using assms by (induction pre arbitrary: out) auto

text \<open>
  C3, as the code has it. The loop of \<^verbatim>\<open>fetch_proofread_meshes\<close> has no handler: when the
  step for some id raises and the steps for the ids before it went through, the function
  raises that error, and \<^verbatim>\<open>main\<close> ends with it before any upload, leaving the object
  store as it was.
\<close>

theorem main_aborts_on_first_failure:
  assumes "env (cfg_api_dataset cfg) (cfg_aws_secret_name cfg) = Inr fetcher"
    and "cfg_segment_ids cfg = pre @ a # post"
    and "\<forall>sid \<in> set pre. \<exists>frag. fragment_of fetcher max_count sid = Inr frag"
    and "fragment_of fetcher max_count a = Inl e"
  shows "fetch_proofread_meshes env max_count (cfg_segment_ids cfg) (cfg_api_dataset cfg)
             (cfg_aws_secret_name cfg) = Inl e
         \<and> main env max_count cfg store = (store, Inl e)"
  using assms by (simp add: main_def fetch_proofread_meshes_def meshes_loop_fails)

theorem main_aborts_on_first_failure_witness:
  "fragment_of missing_10 1000 20 = Inr (fragment_bytes triangle)
   \<and> fetch_one missing_10 10 = Inl NotFoundError
   \<and> fetch_proofread_meshes missing_10_env 1000 (cfg_segment_ids reversed_cfg)
       (cfg_api_dataset reversed_cfg) (cfg_aws_secret_name reversed_cfg) = Inl NotFoundError
   \<and> main missing_10_env 1000 reversed_cfg no_objects = (no_objects, Inl NotFoundError)"
proof -
  have 1: "missing_10_env (cfg_api_dataset reversed_cfg) (cfg_aws_secret_name reversed_cfg)
             = Inr missing_10"
    by (simp add: missing_10_env_def)
  have 2: "cfg_segment_ids reversed_cfg = [20] @ 10 # []"
    by (simp add: reversed_cfg_def)
  have 20: "fragment_of missing_10 1000 20 = Inr (fragment_bytes triangle)"
    by (simp add: fragment_of_def fetch_one_def missing_10_def to_precomputed_triangle)
  then have 3: "\<forall>sid \<in> set [20]. \<exists>frag. fragment_of missing_10 1000 sid = Inr frag"
    by simp
  have 10: "fetch_one missing_10 10 = Inl NotFoundError"
    by (simp add: fetch_one_def missing_10_def)
  then have 4: "fragment_of missing_10 1000 10 = Inl NotFoundError"
    by (simp add: fragment_of_def)
  note r = main_aborts_on_first_failure
      [where env = missing_10_env and cfg = reversed_cfg and fetcher = missing_10
         and max_count = 1000 and pre = "[20]" and a = 10 and post = "[]"
         and e = NotFoundError and store = no_objects,
       OF 1 2 3 4]
  from 20 10 r show ?thesis by (intro conjI) simp_all
qed

text \<open>
  C3, as stated, fails: for the ids 10 and 20, where 10 has no proofread data and 20 can
  be fetched and encoded, the run ends with NotFoundError and the fragment of 20 is not
  in the store.
\<close>

theorem partial_failure_counterexample:
  "fragment_of missing_10 1000 20 = Inr (fragment_bytes triangle)
   \<and> snd (main missing_10_env 1000 example_cfg no_objects) = Inl NotFoundError
   \<and> fst (main missing_10_env 1000 example_cfg no_objects) (''bkt'', ''exp1/mesh/20:0'') = None"
  by (simp add: main_def fetch_proofread_meshes_def missing_10_env_def example_cfg_def
      fragment_of_def fetch_one_def missing_10_def no_objects_def to_precomputed_triangle)

section \<open>Properties of the manifest\<close>

text \<open>
  C4, as the code has it. The manifest has exactly one scale; its \<^verbatim>\<open>chunk_sizes\<close>,
  \<^verbatim>\<open>resolution\<close> and \<^verbatim>\<open>size\<close> are the configuration's values where given and the
  defaults otherwise; \<^verbatim>\<open>mesh\<close> is the directory name; and this manifest is the body put
  at the key of the info file.
\<close>

theorem write_info_file_manifest:
  "\<exists>scale.
      jpath (info fragment_dir_name cfg) [Key ''scales''] = Some (JList [scale])
      \<and> jpath (info fragment_dir_name cfg) [Key ''scales'', Idx 0, Key ''chunk_sizes'']
          = Some (cfg_get (cfg_chunk_sizes cfg) (JList [JList [JInt 64, JInt 64, JInt 64]]))
      \<and> jpath (info fragment_dir_name cfg) [Key ''scales'', Idx 0, Key ''resolution'']
          = Some (cfg_get (cfg_resolution cfg) (JList [JInt 8, JInt 8, JInt 30]))
      \<and> jpath (info fragment_dir_name cfg) [Key ''scales'', Idx 0, Key ''size'']
          = Some (cfg_get (cfg_size cfg) (JList [JInt 1, JInt 1, JInt 1]))
      \<and> jpath (info fragment_dir_name cfg) [Key ''mesh''] = Some (JStr fragment_dir_name)
      \<and> write_info_file bucket s3_base_path fragment_dir_name cfg store
            (bucket, s3_base_path @ ''/info'')
          = Some \<lparr>Body = JsonText (info fragment_dir_name cfg),
                   ContentType = ''application/json''\<rparr>"
  by (simp add: info_def write_info_file_def put_object_def)

theorem write_info_file_manifest_witness:
  "\<exists>scale.
      jpath (info ''mesh'' example_cfg) [Key ''scales''] = Some (JList [scale])
      \<and> jpath (info ''mesh'' example_cfg) [Key ''scales'', Idx 0, Key ''chunk_sizes'']
          = Some (cfg_get (cfg_chunk_sizes example_cfg) (JList [JList [JInt 64, JInt 64, JInt 64]]))
      \<and> jpath (info ''mesh'' example_cfg) [Key ''scales'', Idx 0, Key ''resolution'']
          = Some (cfg_get (cfg_resolution example_cfg) (JList [JInt 8, JInt 8, JInt 30]))
      \<and> jpath (info ''mesh'' example_cfg) [Key ''scales'', Idx 0, Key ''size'']
          = Some (cfg_get (cfg_size example_cfg) (JList [JInt 1, JInt 1, JInt 1]))
      \<and> jpath (info ''mesh'' example_cfg) [Key ''mesh''] = Some (JStr ''mesh'')
      \<and> write_info_file ''bkt'' ''exp1'' ''mesh'' example_cfg no_objects
            (''bkt'', ''exp1'' @ ''/info'')
          = Some \<lparr>Body = JsonText (info ''mesh'' example_cfg),
                   ContentType = ''application/json''\<rparr>"
  by (rule write_info_file_manifest)

text \<open>
  C4, as stated, fails: with no \<^verbatim>\<open>chunk_sizes\<close> in the configuration the manifest's
  \<^verbatim>\<open>chunk_sizes\<close> is the default, a list holding one triple, not a 3-element numeric
  sequence.
\<close>

theorem default_chunk_sizes_counterexample:
  "jpath (info ''mesh'' example_cfg) [Key ''scales'', Idx 0, Key ''chunk_sizes'']
     = Some (JList [JList [JInt 64, JInt 64, JInt 64]])
   \<and> \<not> num3 (JList [JList [JInt 64, JInt 64, JInt 64]])"
  by (simp add: info_def example_cfg_def cfg_get_def)

section \<open>Properties of the object keys\<close>

lemma digit_char_inj: "a < 10 \<Longrightarrow> b < 10 \<Longrightarrow> digit_char a = digit_char b \<Longrightarrow> a = b"
proof -
  assume a: "a < 10" and b: "b < 10" and e: "digit_char a = digit_char b"
  have d: "distinct ''0123456789''" by simp
  have "a < length ''0123456789''" "b < length ''0123456789''" using a b by simp_all
  with d e show "a = b" unfolding digit_char_def by (simp only: nth_eq_iff_index_eq)
qed

lemma digit_char_not_minus: "d < 10 \<Longrightarrow> digit_char d \<noteq> CHR ''-''"
proof -
  assume "d < 10"
  then have "digit_char d \<in> set ''0123456789''"
    unfolding digit_char_def by (intro nth_mem) simp
  then show ?thesis by auto
qed

lemma str_nat_small: "n < 10 \<Longrightarrow> str_nat n = [digit_char n]"
  by (subst str_nat.simps) simp

lemma str_nat_large:
  "\<not> n < 10 \<Longrightarrow> str_nat n = str_nat (n div 10) @ [digit_char (n mod 10)]"
  by (subst str_nat.simps) simp

lemma str_nat_not_Nil: "str_nat n \<noteq> []"
  by (cases "n < 10") (simp_all add: str_nat_small str_nat_large)

lemma length_str_nat_small: "n < 10 \<Longrightarrow> length (str_nat n) = 1"
  by (simp add: str_nat_small)

lemma length_str_nat_large: "\<not> n < 10 \<Longrightarrow> 2 \<le> length (str_nat n)"
proof -
  assume a: "\<not> n < 10"
  obtain c cs where "str_nat (n div 10) = c # cs"
    using str_nat_not_Nil [of "n div 10"] by (cases "str_nat (n div 10)") auto
  with a show ?thesis by (simp add: str_nat_large)
qed

lemma hd_str_nat: "hd (str_nat n) \<noteq> CHR ''-''"
proof (induction n rule: str_nat.induct)
  case (1 n)
  show ?case
  proof (cases "n < 10")
    case True
    then show ?thesis by (simp add: str_nat_small digit_char_not_minus)
  next
    case False
    with 1 show ?thesis by (simp add: str_nat_large str_nat_not_Nil)
  qed
qed

lemma str_nat_inj: "str_nat a = str_nat b \<Longrightarrow> a = b"
proof (induction a arbitrary: b rule: str_nat.induct)
  case (1 n)
  show ?case
  proof (cases "n < 10")
    case True
    note n = this
    show ?thesis
    proof (cases "b < 10")
      case True
      with n 1(2) show ?thesis by (simp add: str_nat_small digit_char_inj)
    next
      case False
      from 1(2) have "length (str_nat n) = length (str_nat b)" by simp
      with n False length_str_nat_small [of n] length_str_nat_large [of b]
      show ?thesis by simp
    qed
  next
    case False
    note n = this
    show ?thesis
    proof (cases "b < 10")
      case True
      from 1(2) have "length (str_nat n) = length (str_nat b)" by simp
      with n True length_str_nat_small [of b] length_str_nat_large [of n]
      show ?thesis by simp
    next
      case False
      with n 1(2) have e: "str_nat (n div 10) = str_nat (b div 10)"
        and d: "digit_char (n mod 10) = digit_char (b mod 10)"
        by (simp_all add: str_nat_large)
      from 1(1) [OF n e] have "n div 10 = b div 10" .
      moreover from d have "n mod 10 = b mod 10" by (intro digit_char_inj) simp_all
      ultimately show ?thesis by (metis div_mult_mod_eq)
    qed
  qed
qed

lemma str_int_inj: "str_int i = str_int j \<Longrightarrow> i = j"
proof -
  assume e: "str_int i = str_int j"
  have neg: "hd (str_int k) = CHR ''-''" if "k < 0" for k using that by (simp add: str_int_def)
  have pos: "hd (str_int k) \<noteq> CHR ''-''" if "\<not> k < 0" for k
    using that by (simp add: str_int_def hd_str_nat)
  show "i = j"
  proof (cases "i < 0")
    case True
    with e neg pos have "j < 0" by metis
    with True e have "nat (- i) = nat (- j)" by (simp add: str_int_def str_nat_inj)
    with True \<open>j < 0\<close> show ?thesis by simp
  next
    case False
    with e neg pos have "\<not> j < 0" by metis
    with False e have "nat i = nat j" by (simp add: str_int_def str_nat_inj)
    with False \<open>\<not> j < 0\<close> show ?thesis by simp
  qed
qed

lemma fragment_key_inj:
  "prefix @ ''/'' @ str_int a @ '':0'' = prefix @ ''/'' @ str_int b @ '':0'' \<Longrightarrow> a = b"
proof -
  assume "prefix @ ''/'' @ str_int a @ '':0'' = prefix @ ''/'' @ str_int b @ '':0''"
  then have "str_int a = str_int b" by simp
  then show "a = b" by (rule str_int_inj)
qed

lemma upload_loop_other:
  "\<forall>(sid, frag) \<in> set fragments. prefix @ ''/'' @ str_int sid @ '':0'' \<noteq> k
     \<Longrightarrow> upload_loop bucket prefix fragments store (bucket', k) = store (bucket', k)"
  by (induction fragments arbitrary: store) (auto simp: put_object_def)

lemma upload_loop_stores:
  "distinct (map fst fragments) \<Longrightarrow> (sid, frag) \<in> set fragments
     \<Longrightarrow> upload_loop bucket prefix fragments store (bucket, prefix @ ''/'' @ str_int sid @ '':0'')
           = Some \<lparr>Body = Bytes frag, ContentType = ''application/octet-stream''\<rparr>"
proof (induction fragments arbitrary: store)
  case Nil
  then show ?case by simp
next
  case (Cons p rest)
  obtain sid' frag' where p: "p = (sid', frag')" by (cases p)
  show ?case
  proof (cases "(sid, frag) = p")
    case True
    with p Cons.prems have "sid \<notin> fst ` set rest" by auto
    then have "\<forall>(s, f) \<in> set rest.
        prefix @ ''/'' @ str_int s @ '':0'' \<noteq> prefix @ ''/'' @ str_int sid @ '':0''"
      by (auto dest!: str_int_inj simp: image_iff)
    then show ?thesis using True p by (simp add: upload_loop_other put_object_def)
  next
    case False
    with Cons.prems have "(sid, frag) \<in> set rest" "distinct (map fst rest)" by auto
    then show ?thesis using p Cons.IH by simp
  qed
qed

lemma put_object_map_add:
  "put_object b k d c (s ++ t) = s ++ put_object b k d c t"
  by (simp add: put_object_def)

lemma upload_loop_map_add:
  "upload_loop bucket prefix fragments (s ++ t) = s ++ upload_loop bucket prefix fragments t"
  by (induction fragments arbitrary: t) (auto simp: put_object_map_add)

lemma upload_loop_idem:
  "upload_loop bucket prefix fragments (upload_loop bucket prefix fragments store)
     = upload_loop bucket prefix fragments store"
proof -
  let ?u = "upload_loop bucket prefix fragments Map.empty"
  have u: "upload_loop bucket prefix fragments s = s ++ ?u" for s
    using upload_loop_map_add [of bucket prefix fragments s Map.empty] by simp
  have "upload_loop bucket prefix fragments (store ++ ?u) = (store ++ ?u) ++ ?u" by (rule u)
  also have "\<dots> = store ++ ?u" by (rule ext) (simp add: map_add_def split: option.split)
  finally show ?thesis by (simp add: u [symmetric])
qed

lemma str_int_10: "str_int 10 = ''10''"
  by (simp add: str_int_def str_nat_large str_nat_small digit_char_def)

text \<open>
  C5. After the upload, the fragment of every segment id of the dictionary is stored
  under base path, mesh directory and \<^verbatim>\<open>id:0\<close> with content type
  \<^verbatim>\<open>application/octet-stream\<close>; the manifest is stored under base path and \<^verbatim>\<open>info\<close> with
  content type \<^verbatim>\<open>application/json\<close>. A dictionary has each key once.
\<close>

theorem artifacts_written_at_keys:
  assumes "distinct (map fst fragments)" and "(sid, frag) \<in> set fragments"
  shows "fst (upload_meshes_to_s3 fragments bucket s3_base_path fragment_dir_name store)
             (bucket, s3_base_path @ ''/'' @ fragment_dir_name @ ''/'' @ str_int sid @ '':0'')
           = Some \<lparr>Body = Bytes frag, ContentType = ''application/octet-stream''\<rparr>
         \<and> write_info_file bucket s3_base_path fragment_dir_name cfg store
             (bucket, s3_base_path @ ''/info'')
           = Some \<lparr>Body = JsonText (info fragment_dir_name cfg),
                    ContentType = ''application/json''\<rparr>"
proof -
  have "upload_loop bucket (s3_base_path @ ''/'' @ fragment_dir_name) fragments store
          (bucket, (s3_base_path @ ''/'' @ fragment_dir_name) @ ''/'' @ str_int sid @ '':0'')
        = Some \<lparr>Body = Bytes frag, ContentType = ''application/octet-stream''\<rparr>"
    using assms by (rule upload_loop_stores)
  then show ?thesis
    by (simp add: upload_meshes_to_s3_def Let_def write_info_file_def put_object_def)
qed

theorem artifacts_written_at_keys_witness:
  "fst (upload_meshes_to_s3 [(10, [1, 2, 3])] ''bkt'' ''exp1'' ''mesh'' no_objects)
       (''bkt'', ''exp1/mesh/10:0'')
     = Some \<lparr>Body = Bytes [1, 2, 3], ContentType = ''application/octet-stream''\<rparr>
   \<and> write_info_file ''bkt'' ''exp1'' ''mesh'' example_cfg no_objects (''bkt'', ''exp1/info'')
     = Some \<lparr>Body = JsonText (info ''mesh'' example_cfg), ContentType = ''application/json''\<rparr>"
proof -
  have d: "distinct (map fst [(10 :: segment_id, [1, 2, 3 :: byte])])" by simp
  have m: "(10, [1, 2, 3]) \<in> set [(10 :: segment_id, [1, 2, 3 :: byte])]" by simp
  from artifacts_written_at_keys [OF d m, of "''bkt''" "''exp1''" "''mesh''" no_objects example_cfg]
  show ?thesis by (simp add: str_int_10)
qed

text \<open>
  C6. Publishing the same fragments a second time leaves the store as the first time
  left it, and the object under a fragment's key is then still exactly the bytes of that
  fragment, whatever the store held before.
\<close>

theorem publishing_twice_is_idempotent:
  "fst (upload_meshes_to_s3 fragments bucket s3_base_path fragment_dir_name
          (fst (upload_meshes_to_s3 fragments bucket s3_base_path fragment_dir_name store)))
     = fst (upload_meshes_to_s3 fragments bucket s3_base_path fragment_dir_name store)
   \<and> fst (upload_meshes_to_s3 [(sid, frag)] bucket s3_base_path fragment_dir_name
          (fst (upload_meshes_to_s3 [(sid, frag)] bucket s3_base_path
                  fragment_dir_name store)))
        (bucket, s3_base_path @ ''/'' @ fragment_dir_name @ ''/'' @ str_int sid @ '':0'')
     = Some \<lparr>Body = Bytes frag, ContentType = ''application/octet-stream''\<rparr>"
  by (simp add: upload_meshes_to_s3_def Let_def upload_loop_idem put_object_def)

theorem publishing_twice_is_idempotent_witness:
  "fst (upload_meshes_to_s3 [(10, fragment_bytes triangle)] ''bkt'' ''exp1'' ''mesh''
          (fst (upload_meshes_to_s3 [(10, fragment_bytes triangle)] ''bkt'' ''exp1'' ''mesh''
                  no_objects)))
     = fst (upload_meshes_to_s3 [(10, fragment_bytes triangle)] ''bkt'' ''exp1'' ''mesh''
              no_objects)"
  by (rule publishing_twice_is_idempotent [THEN conjunct1])

section \<open>Properties of the fragment encoding\<close>

lemma length_le32: "length (le32 w) = 4"
  by (simp add: le32_def)

lemma length_row_bytes: "length (row_bytes r) = 12"
  by (cases r) (simp add: row_bytes_def length_le32)

lemma length_rows: "length (concat (map row_bytes rs)) = 12 * length rs"
  by (induction rs) (simp_all add: length_row_bytes)

lemma length_fragment_bytes:
  "length (fragment_bytes m) = 4 + 12 * length (vertices m) + 12 * length (faces m)"
  by (simp add: fragment_bytes_def length_le32 length_rows)

lemma to_precomputed_Inr:
  "to_precomputed max_count m = Inr frag \<longleftrightarrow>
     in_range m \<and> length (vertices m) \<le> max_count \<and> length (faces m) \<le> max_count
       \<and> frag = fragment_bytes m"
  by (auto simp: to_precomputed_def)

text \<open>
  C7. A mesh with a face index out of range, or with more vertices or faces than the
  maximum, makes the encoder fail with EncodingError; no fragment is produced, and
  \<^verbatim>\<open>fetch_proofread_meshes\<close>, whose loop body calls the encoder, ends with that error when
  the service returns such a mesh.
\<close>

theorem malformed_mesh_is_rejected:
  assumes "\<not> in_range m \<or> max_count < length (vertices m) \<or> max_count < length (faces m)"
    and "env api_dataset aws_secret_name = Inr fetcher"
    and "fetch_one fetcher sid = Inr m"
  shows "to_precomputed max_count m = Inl EncodingError
         \<and> (\<forall>frag. to_precomputed max_count m \<noteq> Inr frag)
         \<and> fetch_proofread_meshes env max_count (sid # sids) api_dataset aws_secret_name
             = Inl EncodingError"
proof -
  from assms(1) have e: "to_precomputed max_count m = Inl EncodingError"
    by (auto simp: to_precomputed_def)
  with assms(3) have "fragment_of fetcher max_count sid = Inl EncodingError"
    by (simp add: fragment_of_def)
  with assms(2) e show ?thesis by (simp add: fetch_proofread_meshes_def)
qed

theorem malformed_mesh_is_rejected_witness:
  "\<not> in_range stray_face
   \<and> to_precomputed 1000 stray_face = Inl EncodingError
   \<and> fetch_proofread_meshes stray_face_env 1000 [7, 8] ''h01'' None = Inl EncodingError"
proof -
  have n: "\<not> in_range stray_face" by (simp add: in_range_def stray_face_def)
  then have 1: "\<not> in_range stray_face \<or> 1000 < length (vertices stray_face)
                  \<or> 1000 < length (faces stray_face)"
    by (rule disjI1)
  have 2: "stray_face_env ''h01'' None = Inr stray_face_service"
    by (simp add: stray_face_env_def)
  have 3: "fetch_one stray_face_service 7 = Inr stray_face"
    by (simp add: fetch_one_def stray_face_service_def)
  note r = malformed_mesh_is_rejected
      [where env = stray_face_env and fetcher = stray_face_service and sids = "[8]",
       OF 1 2 3]
  from n r show ?thesis by (intro conjI) simp_all
qed

lemma from_le32_le32:
  "from_le32 (ucast w) (ucast (drop_bit 8 w)) (ucast (drop_bit 16 w)) (ucast (drop_bit 24 w)) = w"
  unfolding from_le32_def
proof (rule bit_word_eqI)
  fix n
  assume "n < LENGTH(32)"
  then consider "n < 8" | "8 \<le> n" "n < 16" | "16 \<le> n" "n < 24" | "24 \<le> n" "n < 32"
    by fastforce
  then show "bit (ucast (ucast w :: byte) OR push_bit 8 (ucast (ucast (drop_bit 8 w) :: byte))
                   OR push_bit 16 (ucast (ucast (drop_bit 16 w) :: byte))
                   OR push_bit 24 (ucast (ucast (drop_bit 24 w) :: byte)) :: u32) n
             = bit w n"
    by cases (auto simp: bit_simps)
qed

lemma words_of_le32: "words_of (le32 w @ r) = w # words_of r"
  by (simp add: le32_def from_le32_le32)

lemma words_of_row: "words_of (row_bytes (x, y, z) @ r) = x # y # z # words_of r"
  by (simp add: row_bytes_def words_of_le32)

lemma chunk3_words_rows: "chunk3 (words_of (concat (map row_bytes rs))) = rs"
proof (induction rs)
  case Nil
  show ?case by simp
next
  case (Cons r rs)
  obtain x y z where r: "r = (x, y, z)" by (cases r)
  have "words_of (concat (map row_bytes (r # rs)))
          = x # y # z # words_of (concat (map row_bytes rs))"
    unfolding r by (simp add: words_of_row)
  with Cons r show ?case by simp
qed

lemma hd_words_le32: "hd (words_of (take 4 (le32 c @ r))) = c"
proof -
  have "take 4 (le32 c @ r) = le32 c @ []" by (simp add: length_le32)
  then show ?thesis by (simp only: words_of_le32) simp
qed

lemma fragment_bytes_roundtrip:
  assumes "length (vertices m) < 2 ^ 32"
  shows "from_precomputed (fragment_bytes m) = Inr m"
proof -
  let ?c = "of_nat (length (vertices m)) :: u32"
  let ?vs = "concat (map row_bytes (vertices m))"
  let ?fs = "concat (map row_bytes (faces m))"
  have bs: "fragment_bytes m = le32 ?c @ ?vs @ ?fs" by (simp add: fragment_bytes_def)
  have n: "unat ?c = length (vertices m)"
    using assms by (simp add: unat_of_nat)
  have len: "\<not> length (le32 ?c @ ?vs @ ?fs) < 4" by (simp add: length_le32)
  have hd: "unat (hd (words_of (take 4 (le32 ?c @ ?vs @ ?fs)))) = length (vertices m)"
    by (simp only: hd_words_le32 n)
  have rest: "drop 4 (le32 ?c @ ?vs @ ?fs) = ?vs @ ?fs" by (simp add: length_le32)
  have tk: "take (12 * length (vertices m)) (?vs @ ?fs) = ?vs" by (simp add: length_rows)
  have dr: "drop (12 * length (vertices m)) (?vs @ ?fs) = ?fs" by (simp add: length_rows)
  have ok: "\<not> (length (?vs @ ?fs) < 12 * length (vertices m)
               \<or> (length (?vs @ ?fs) - 12 * length (vertices m)) mod 12 \<noteq> 0)"
    by (simp add: length_rows)
  have "from_precomputed (le32 ?c @ ?vs @ ?fs)
          = Inr \<lparr>vertices = chunk3 (words_of ?vs), faces = chunk3 (words_of ?fs)\<rparr>"
    unfolding from_precomputed_def Let_def hd rest tk dr using len ok by simp
  then show ?thesis by (simp add: bs chunk3_words_rows)
qed

text \<open>
  C8. For a mesh whose vertex count fits the 32-bit count field, decoding its fragment
  bytes gives the mesh back; and when the mesh is well-formed (face indices in range,
  counts within the maximum) the encoder produces those bytes, so that decoding what the
  encoder produced gives back the vertex and face arrays.
\<close>

theorem precomputed_roundtrip:
  assumes "length (vertices m) < 2 ^ 32"
  shows "from_precomputed (fragment_bytes m) = Inr m
         \<and> (\<forall>frag. to_precomputed max_count m = Inr frag \<longrightarrow> from_precomputed frag = Inr m)
         \<and> (in_range m \<and> length (vertices m) \<le> max_count \<and> length (faces m) \<le> max_count
              \<longrightarrow> (\<exists>frag. to_precomputed max_count m = Inr frag
                          \<and> from_precomputed frag = Inr m))"
  using fragment_bytes_roundtrip [OF assms] by (simp add: to_precomputed_Inr)

theorem precomputed_roundtrip_witness:
  "length (vertices triangle) < 2 ^ 32
   \<and> in_range triangle \<and> length (vertices triangle) \<le> 1000 \<and> length (faces triangle) \<le> 1000
   \<and> to_precomputed 1000 triangle = Inr (fragment_bytes triangle)
   \<and> from_precomputed (fragment_bytes triangle) = Inr triangle"
proof -
  have l: "length (vertices triangle) < 2 ^ 32" by (simp add: triangle_def)
  have w: "in_range triangle" "length (vertices triangle) \<le> 1000"
    "length (faces triangle) \<le> 1000"
    by (simp_all add: in_range_def triangle_def)
  note r = precomputed_roundtrip [OF l, of 1000]
  from r w obtain frag where f: "to_precomputed 1000 triangle = Inr frag"
    and d: "from_precomputed frag = Inr triangle"
    by blast
  from f have "frag = fragment_bytes triangle" by (simp add: to_precomputed_Inr)
  with f d l w show ?thesis by (intro conjI) simp_all
qed

section \<open>Properties of the viewer state\<close>

text \<open>
  C9. With a skeleton source and a skeleton manager, the layers are named, in order,
  \<^verbatim>\<open>EM_image\<close>, \<^verbatim>\<open>flat_seg\<close>, the mesh layer name, \<^verbatim>\<open>proofread_skeletons_source\<close> and
  the skeleton layer name; the mesh layer and the skeleton source layer select the given
  segment ids, and the manager's layer the ids uploaded through it.
\<close>

theorem build_viewer_link_layers:
  "map layer_name
       (vs_layers (build_viewer_link image_source seg_source mesh_source (Some skel_source)
          mesh_layer_name segment_ids dims cave_client_name (Some skmgr) skeleton_layer_name))
     = [''EM_image'', ''flat_seg'', mesh_layer_name, ''proofread_skeletons_source'',
        skeleton_layer_name]
   \<and> map layer_segments
       (vs_layers (build_viewer_link image_source seg_source mesh_source (Some skel_source)
          mesh_layer_name segment_ids dims cave_client_name (Some skmgr) skeleton_layer_name))
     = [None, None, Some segment_ids, Some segment_ids, Some (map fst (sm_uploaded skmgr))]"
  by (simp add: build_viewer_link_def add_image_layer_def add_segmentation_layer_def
      add_layer_def to_segmentation_layer_def)

theorem build_viewer_link_layers_witness:
  "map layer_name
       (vs_layers (build_viewer_link ''precomputed://em'' ''precomputed://seg''
          ''s3://bkt/exp1/mesh'' (Some ''precomputed://s3://bkt/exp1/skeletons'')
          ''proofread_meshes'' [10, 20] (JList [JInt 8, JInt 8, JInt 30]) None
          (Some (init_skeleton_manager ''precomputed://seg'' ''bkt'' ''exp1''
                   :: int skeleton_manager))
          ''proofread_skeletons''))
     = [''EM_image'', ''flat_seg'', ''proofread_meshes'', ''proofread_skeletons_source'',
        ''proofread_skeletons'']"
  by (rule build_viewer_link_layers [THEN conjunct1])

end
